theory Spec2Isabelle
  imports Complex_Main "HOL-Library.Word"
begin

section \<open>JavaScript strings\<close>

text \<open>
  A JavaScript string is a sequence of UTF-16 code units. \<open>trim\<close>, \<open>split\<close> and
  \<open>startsWith\<close> all work code unit by code unit, so the model keeps that view.
  \<open>lit\<close> turns an ASCII literal of the source into its code units.
\<close>

type_synonym code_unit = "16 word"
type_synonym jsstring = "code_unit list"

definition lit :: "string \<Rightarrow> jsstring" where
  "lit s = map (\<lambda>c. of_nat (of_char c)) s"

text \<open>
  \<open>String.prototype.trim\<close> strips WhiteSpace and LineTerminator code points from both
  ends: TAB, LF, VT, FF, CR, SP, NBSP, U+1680, U+2000 to U+200A, U+2028, U+2029,
  U+202F, U+205F, U+3000 and U+FEFF.
\<close>

definition isWhiteSpace :: "code_unit \<Rightarrow> bool" where
  "isWhiteSpace c \<longleftrightarrow>
     c = 0x0009 \<or> c = 0x000A \<or> c = 0x000B \<or> c = 0x000C \<or> c = 0x000D \<or>
     c = 0x0020 \<or> c = 0x00A0 \<or> c = 0x1680 \<or> (0x2000 \<le> c \<and> c \<le> 0x200A) \<or>
     c = 0x2028 \<or> c = 0x2029 \<or> c = 0x202F \<or> c = 0x205F \<or> c = 0x3000 \<or>
     c = 0xFEFF"

definition trim :: "jsstring \<Rightarrow> jsstring" where
  "trim s = rev (dropWhile isWhiteSpace (rev (dropWhile isWhiteSpace s)))"

text \<open>A string is truthy exactly when it is not empty.\<close>

definition truthy :: "jsstring \<Rightarrow> bool" where
  "truthy s \<longleftrightarrow> s \<noteq> []"

definition startsWith :: "jsstring \<Rightarrow> jsstring \<Rightarrow> bool" where
  "startsWith s p \<longleftrightarrow> take (length p) s = p"

text \<open>
  \<open>s.split(sep)\<close> for a separator of one code unit (the only use in the source is
  \<open>split('.')\<close>). The empty string splits into one empty piece.
\<close>

fun split :: "code_unit \<Rightarrow> jsstring \<Rightarrow> jsstring list" where
  "split sep [] = [[]]"
| "split sep (c # cs) =
     (if c = sep then [] # split sep cs
      else (case split sep cs of
              [] \<Rightarrow> [[c]]
            | p # ps \<Rightarrow> (c # p) # ps))"

text \<open>
  \<open>arr[0]\<close> inside a template literal: the first element, or the text
  \<open>undefined\<close> when the array is empty.
\<close>

definition index0 :: "jsstring list \<Rightarrow> jsstring" where
  "index0 arr = (case arr of [] \<Rightarrow> lit ''undefined'' | x # _ \<Rightarrow> x)"

section \<open>Files, formats and the API client (lib/api.ts)\<close>

type_synonym blob = "8 word list"

record File =
  name :: jsstring
  type :: jsstring
  content :: blob

text \<open>The union type \<open>'jpeg' | 'png' | 'webp'\<close> and the string each value is.\<close>

datatype format = Jpeg | Png | Webp

fun format_str :: "format \<Rightarrow> jsstring" where
  "format_str Jpeg = lit ''jpeg''"
| "format_str Png = lit ''png''"
| "format_str Webp = lit ''webp''"

record ProcessImageRequest =
  req_file :: File
  req_address :: jsstring
  req_format :: format

datatype form_value = FileValue File | TextValue jsstring

type_synonym form_data = "(jsstring \<times> form_value) list"

text \<open>
  What a rejected request looks like to its caller: the value of
  \<open>err.response?.data?.detail\<close>, if there is one.
\<close>

datatype api_error = ApiError "jsstring option"

text \<open>
  \<open>api.processImage\<close> appends the three fields to a form and posts it. The transport
  (\<open>axios.post\<close>) is a parameter: it either yields the response blob or throws.
\<close>

definition processImage_form :: "ProcessImageRequest \<Rightarrow> form_data" where
  "processImage_form data =
     [(lit ''file'', FileValue (req_file data)),
      (lit ''address'', TextValue (req_address data)),
      (lit ''format'', TextValue (format_str (req_format data)))]"

definition processImage :: "(form_data \<Rightarrow> api_error + blob) \<Rightarrow> ProcessImageRequest \<Rightarrow> api_error + blob" where
  "processImage post data = post (processImage_form data)"

section \<open>FormatSelector (components)\<close>

record format_option =
  fvalue :: format
  label :: jsstring
  description :: jsstring

definition formats :: "format_option list" where
  "formats =
     [\<lparr>fvalue = Jpeg, label = lit ''JPEG'', description = lit ''Best for photos''\<rparr>,
      \<lparr>fvalue = Png, label = lit ''PNG'', description = lit ''Lossless quality''\<rparr>,
      \<lparr>fvalue = Webp, label = lit ''WEBP'', description = lit ''Modern format''\<rparr>]"

text \<open>
  The selector renders one button per entry of \<open>formats\<close>; clicking the button at
  position \<open>i\<close> calls \<open>onChange\<close> with that entry's value. The result lists the
  arguments \<open>onChange\<close> is called with.
\<close>

definition FormatSelector_click :: "nat \<Rightarrow> format list" where
  "FormatSelector_click i = (if i < length formats then [fvalue (formats ! i)] else [])"

section \<open>ImageUploader (components)\<close>

record uploader_state =
  isDragging :: bool

text \<open>
  \<open>handleDrop\<close> clears the dragging flag, looks for the first dropped file whose
  type starts with \<open>image/\<close> and hands it to \<open>onImageSelected\<close>. The second
  component lists the arguments \<open>onImageSelected\<close> is called with.
\<close>

definition handleDrop :: "File list \<Rightarrow> uploader_state \<Rightarrow> uploader_state \<times> File list" where
  "handleDrop files u =
     (let u' = u\<lparr>isDragging := False\<rparr>;
          imageFile = find (\<lambda>f. startsWith (type f) (lit ''image/'')) files
      in case imageFile of
           None \<Rightarrow> (u', [])
         | Some f \<Rightarrow> (u', [f]))"

section \<open>The page (app/page.tsx)\<close>

record home_state =
  selectedImage :: "File option"
  address :: jsstring
  format :: format
  isProcessing :: bool
  processedBlob :: "blob option"
  error :: "jsstring option"
  success :: bool

definition initial_state :: home_state where
  "initial_state =
     \<lparr>selectedImage = None, address = [], format = Jpeg, isProcessing = False,
      processedBlob = None, error = None, success = False\<rparr>"

text \<open>The page passes its setters to the components as their callbacks.\<close>

definition setSelectedImage :: "File \<Rightarrow> home_state \<Rightarrow> home_state" where
  "setSelectedImage f s = s\<lparr>selectedImage := Some f\<rparr>"

definition setFormat :: "format \<Rightarrow> home_state \<Rightarrow> home_state" where
  "setFormat v s = s\<lparr>format := v\<rparr>"

definition drop_on_page :: "File list \<Rightarrow> uploader_state \<times> home_state \<Rightarrow> uploader_state \<times> home_state" where
  "drop_on_page files us =
     (case handleDrop files (fst us) of
        (u', calls) \<Rightarrow> (u', fold setSelectedImage calls (snd us)))"

definition click_format :: "nat \<Rightarrow> home_state \<Rightarrow> home_state" where
  "click_format i s = fold setFormat (FormatSelector_click i) s"

text \<open>
  What \<open>handleProcess\<close> does to the outside world: requests sent through
  \<open>api.processImage\<close> and downloads started (file name and content).
\<close>

datatype effect = ProcessImage ProcessImageRequest | Download jsstring blob

definition download_name :: "File \<Rightarrow> format \<Rightarrow> jsstring" where
  "download_name img fmt = index0 (split 0x2E (name img)) @ lit ''_gps.'' @ format_str fmt"

definition error_message :: "api_error \<Rightarrow> jsstring" where
  "error_message err =
     (case err of
        ApiError None \<Rightarrow> lit ''Failed to process image. Please try again.''
      | ApiError (Some detail) \<Rightarrow>
          if truthy detail then detail
          else lit ''Failed to process image. Please try again.'')"

text \<open>
  \<open>handleProcess\<close>, run to completion with no other event in between. The guard
  returns before any request; otherwise the flags are reset, the request is sent, and
  the outcome is stored (\<open>finally\<close> clears \<open>isProcessing\<close> on both paths).
\<close>

definition handleProcess ::
  "(form_data \<Rightarrow> api_error + blob) \<Rightarrow> home_state \<Rightarrow> home_state \<times> effect list" where
  "handleProcess post s =
     (case selectedImage s of
        None \<Rightarrow> (s\<lparr>error := Some (lit ''Please select an image and enter an address'')\<rparr>, [])
      | Some img \<Rightarrow>
          if \<not> truthy (trim (address s))
          then (s\<lparr>error := Some (lit ''Please select an image and enter an address'')\<rparr>, [])
          else
            (let s1 = s\<lparr>isProcessing := True, error := None, success := False,
                        processedBlob := None\<rparr>;
                 req = \<lparr>req_file = img, req_address = address s, req_format = format s\<rparr>
             in (case processImage post req of
                   Inr b \<Rightarrow>
                     (s1\<lparr>processedBlob := Some b, success := True, isProcessing := False\<rparr>,
                      [ProcessImage req, Download (download_name img (format s)) b])
                 | Inl err \<Rightarrow>
                     (s1\<lparr>error := Some (error_message err), isProcessing := False\<rparr>,
                      [ProcessImage req]))))"

text \<open>The process button's \<open>disabled\<close> attribute.\<close>

definition process_disabled :: "home_state \<Rightarrow> bool" where
  "process_disabled s \<longleftrightarrow>
     selectedImage s = None \<or> \<not> truthy (trim (address s)) \<or> isProcessing s"

section \<open>CoordinateCodec\<close>

text \<open>
  Modelled from the spec: the coordinate codec lives in the backend
  (\<open>services/exif_handler.py\<close>), which is not among the source files; the axis of a
  coordinate, as the contract \<open>toDMS(decimalDegrees, axis: {lat, lon})\<close> names it.
\<close>

datatype axis = Lat | Lon

text \<open>
  Modelled from the spec: the hemisphere reference of the absent codec, \<open>N\<close>/\<open>S\<close> for
  latitude and \<open>E\<close>/\<open>W\<close> for longitude.
\<close>

datatype reference = N | S | E | W

text \<open>
  Modelled from the spec: the one error of the absent codec, \<open>InvalidCoordinate\<close>
  (out-of-range or non-finite input).
\<close>

datatype codec_error = InvalidCoordinate

text \<open>
  Modelled from the spec: the codec's input is a float. A finite float denotes a real
  number; NaN and the infinities are the non-finite inputs. Arithmetic on finite values
  is taken exact: the rounding of floating-point operations is not part of the model.
\<close>

datatype decimal_degrees = Finite real | NonFinite

text \<open>
  Modelled from the spec: the DMS triple of the absent codec,
  \<open>{degrees: unsigned int, minutes: unsigned int, seconds: rational(numerator,
  denominator)}\<close>.
\<close>

record DMS =
  degrees :: nat
  minutes :: nat
  seconds :: "nat \<times> nat"

text \<open>
  Modelled from the spec: the fixed denominator of the seconds rational, for which the
  spec proposes 1,000,000.
\<close>

definition denominator :: nat where
  "denominator = 1000000"

text \<open>
  Modelled from the spec: the valid range of the absent codec, latitude in [-90, 90] and
  longitude in [-180, 180], both ends included as in the Coordinate type and in the
  testable property "rejects latitude outside [-90,90] and longitude outside
  [-180,180]". The edge case "input magnitude \<ge> 180/90 boundary: reject" is read
  as a magnitude beyond the boundary, which is what the other two sentences say.
\<close>

definition bound :: "axis \<Rightarrow> real" where
  "bound ax = (case ax of Lat \<Rightarrow> 90 | Lon \<Rightarrow> 180)"

text \<open>
  Modelled from the spec: "reference = N if axis=lat and input\<ge>0 else S; E if axis=lon
  and input\<ge>0 else W" of the absent codec.
\<close>

definition hemisphere :: "axis \<Rightarrow> real \<Rightarrow> reference" where
  "hemisphere ax x =
     (case ax of
        Lat \<Rightarrow> if x \<ge> 0 then N else S
      | Lon \<Rightarrow> if x \<ge> 0 then E else W)"

text \<open>
  Modelled from the spec: \<open>toDMS\<close> of the absent codec. Non-finite and out-of-range
  inputs are rejected, never clamped. Otherwise the magnitude is the absolute value,
  degrees its floor, the remainder times 60 the minutes, their floor the whole
  minutes, the remainder times 60 the decimal seconds, and the seconds are stored as
  \<open>round(seconds_decimal * denominator) / denominator\<close>. The spec names no rule
  for ties; \<open>round\<close> here is the nearest integer, halves upwards.
\<close>

definition toDMS :: "decimal_degrees \<Rightarrow> axis \<Rightarrow> codec_error + DMS \<times> reference" where
  "toDMS decimalDegrees ax =
     (case decimalDegrees of
        NonFinite \<Rightarrow> Inl InvalidCoordinate
      | Finite x \<Rightarrow>
          if \<bar>x\<bar> > bound ax then Inl InvalidCoordinate
          else
            (let magnitude = \<bar>x\<bar>;
                 deg = \<lfloor>magnitude\<rfloor>;
                 mins = (magnitude - of_int deg) * 60;
                 minutes_int = \<lfloor>mins\<rfloor>;
                 seconds_decimal = (mins - of_int minutes_int) * 60;
                 numerator = round (seconds_decimal * of_nat denominator)
             in Inr (\<lparr>degrees = nat deg, minutes = nat minutes_int,
                      seconds = (nat numerator, denominator)\<rparr>,
                     hemisphere ax x)))"

text \<open>
  Modelled from the spec: \<open>fromDMS\<close> of the absent codec, the reverse operation:
  decimal degrees rebuilt from degrees, minutes and seconds, with the sign taken from
  the hemisphere reference.
\<close>

definition fromDMS :: "DMS \<times> reference \<Rightarrow> real" where
  "fromDMS p =
     (case p of (d, ref) \<Rightarrow>
        (let magnitude = of_nat (degrees d) + of_nat (minutes d) / 60
               + (of_nat (fst (seconds d)) / of_nat (snd (seconds d))) / 3600
         in if ref = S \<or> ref = W then - magnitude else magnitude))"

text \<open>
  Modelled from the spec: the codec's declared seconds precision, half a unit of the
  seconds denominator, expressed in degrees.
\<close>

definition precision :: real where
  "precision = 1 / (2 * of_nat denominator) / 3600"

section \<open>Properties of the string helpers\<close>

lemma split_not_empty: "split sep s \<noteq> []"
  by (induction s) (auto split: list.splits)

lemma index0_split: "index0 (split sep s) = takeWhile (\<lambda>c. c \<noteq> sep) s"
proof (induction s)
  case Nil
  show ?case by (simp add: index0_def)
next
  case (Cons c cs)
  obtain p ps where "split sep cs = p # ps"
    using split_not_empty [of sep cs] by (cases "split sep cs") auto
  with Cons show ?case by (simp add: index0_def)
qed

lemma trim_empty_iff: "trim s = [] \<longleftrightarrow> (\<forall>c\<in>set s. isWhiteSpace c)"
proof
  assume "trim s = []"
  then have "\<forall>c\<in>set (dropWhile isWhiteSpace s). isWhiteSpace c"
    by (simp add: trim_def)
  then have "dropWhile isWhiteSpace s = []"
    by (metis hd_dropWhile hd_in_set)
  then show "\<forall>c\<in>set s. isWhiteSpace c" by simp
next
  assume "\<forall>c\<in>set s. isWhiteSpace c"
  then have d: "dropWhile isWhiteSpace s = []" by simp
  show "trim s = []" unfolding trim_def d by simp
qed

lemma UNIV_format: "(UNIV :: format set) = {Jpeg, Png, Webp}"
  using format.exhaust by auto

section \<open>The output formats on offer\<close>

text \<open>
  Claim C7. The selectable output formats are fixed and exactly jpeg, png and webp:
  the selector's list offers these three values in this order, they are all the values
  of the format type, the strings they stand for are exactly \<open>jpeg\<close>, \<open>png\<close> and
  \<open>webp\<close>, the \<open>format\<close> field of every request form the client builds is the
  string of the request's format, and a click on the selector can only store one of
  the three values.
\<close>

theorem formats_exactly_three:
  "map fvalue formats = [Jpeg, Png, Webp] \<and>
   set (map fvalue formats) = (UNIV :: format set) \<and>
   range format_str = {lit ''jpeg'', lit ''png'', lit ''webp''} \<and>
   map_of (processImage_form req) (lit ''format'') = Some (TextValue (format_str (req_format req))) \<and>
   click_format i s = (if i < 3 then s\<lparr>format := [Jpeg, Png, Webp] ! i\<rparr> else s)"
proof -
  have a: "map fvalue formats = [Jpeg, Png, Webp]"
    by (simp add: formats_def)
  have b: "set (map fvalue formats) = (UNIV :: format set)"
    unfolding a UNIV_format by simp
  have c: "range format_str = {lit ''jpeg'', lit ''png'', lit ''webp''}"
    unfolding UNIV_format by simp
  have d: "map_of (processImage_form req) (lit ''format'') =
             Some (TextValue (format_str (req_format req)))"
    by (simp add: processImage_form_def lit_def)
  have e: "click_format i s = (if i < 3 then s\<lparr>format := [Jpeg, Png, Webp] ! i\<rparr> else s)"
  proof -
    consider "i = 0" | "i = 1" | "i = 2" | "3 \<le> i" by linarith
    then show ?thesis
      by cases (simp_all add: click_format_def FormatSelector_click_def setFormat_def formats_def)
  qed
  from a b c d e show ?thesis by blast
qed

theorem formats_exactly_three_witness:
  "format (click_format 2 initial_state) = Webp \<and>
   click_format 7 initial_state = initial_state \<and>
   map_of (processImage_form
             \<lparr>req_file = \<lparr>name = lit ''a.png'', type = lit ''image/png'', content = []\<rparr>,
              req_address = lit ''Paris'', req_format = Webp\<rparr>) (lit ''format'')
     = Some (TextValue (lit ''webp''))"
  using formats_exactly_three [of "\<lparr>req_file = \<lparr>name = lit ''a.png'', type = lit ''image/png'', content = []\<rparr>,
              req_address = lit ''Paris'', req_format = Webp\<rparr>" 2 initial_state]
    formats_exactly_three [of "\<lparr>req_file = \<lparr>name = lit ''a.png'', type = lit ''image/png'', content = []\<rparr>,
              req_address = lit ''Paris'', req_format = Webp\<rparr>" 7 initial_state]
  by simp

section \<open>The guard of handleProcess\<close>

text \<open>
  Claim C8. In every state where no image is selected, or the address is empty or made
  of whitespace only, \<open>handleProcess\<close> stores the message "Please select an image and
  enter an address" as the error, leaves every other part of the state as it was, and
  sends no request (whatever the transport would have answered). In those states the
  process button is disabled as well.
\<close>

theorem handleProcess_guard:
  assumes "selectedImage s = None \<or> (\<forall>c\<in>set (address s). isWhiteSpace c)"
  shows "handleProcess post s =
           (s\<lparr>error := Some (lit ''Please select an image and enter an address'')\<rparr>, []) \<and>
         process_disabled s"
  using assms
  by (auto simp: handleProcess_def process_disabled_def truthy_def trim_empty_iff
           split: option.splits)

theorem handleProcess_guard_witness:
  "handleProcess (\<lambda>form. Inr [1, 2, 3])
     (initial_state\<lparr>selectedImage := Some \<lparr>name = lit ''a.png'', type = lit ''image/png'', content = []\<rparr>,
                    address := [0x20, 0x2003, 0x09]\<rparr>)
   = (initial_state\<lparr>selectedImage := Some \<lparr>name = lit ''a.png'', type = lit ''image/png'', content = []\<rparr>,
                    address := [0x20, 0x2003, 0x09],
                    error := Some (lit ''Please select an image and enter an address'')\<rparr>, []) \<and>
   handleProcess (\<lambda>form. Inr [1, 2, 3]) (initial_state\<lparr>address := lit ''Paris''\<rparr>)
   = (initial_state\<lparr>address := lit ''Paris'',
                    error := Some (lit ''Please select an image and enter an address'')\<rparr>, [])"
  using handleProcess_guard [of "initial_state\<lparr>selectedImage := Some \<lparr>name = lit ''a.png'', type = lit ''image/png'', content = []\<rparr>,
                    address := [0x20, 0x2003, 0x09]\<rparr>" "\<lambda>form. Inr [1, 2, 3]"]
    handleProcess_guard [of "initial_state\<lparr>address := lit ''Paris''\<rparr>" "\<lambda>form. Inr [1, 2, 3]"]
  by (simp add: initial_state_def isWhiteSpace_def)

section \<open>The name of the downloaded file\<close>

text \<open>
  Claim C9. When a run succeeds (an image is selected, the address is not blank and the
  request yields a blob), exactly one download is started, and its file name is the
  selected file's name cut before its first \<open>.\<close>, followed by \<open>_gps.\<close> and the
  string of the chosen format. A name that starts with a dot keeps an empty base name,
  and a name with several dots keeps only what precedes the first.
\<close>

theorem download_name_first_dot:
  assumes "selectedImage s = Some img"
    and "truthy (trim (address s))"
    and "processImage post \<lparr>req_file = img, req_address = address s, req_format = format s\<rparr> = Inr b"
  shows "snd (handleProcess post s) =
           [ProcessImage \<lparr>req_file = img, req_address = address s, req_format = format s\<rparr>,
            Download (takeWhile (\<lambda>c. c \<noteq> 0x2E) (name img) @ lit ''_gps.'' @ format_str (format s)) b]"
  using assms by (simp add: handleProcess_def download_name_def index0_split)

theorem download_name_first_dot_witness:
  "snd (handleProcess (\<lambda>form. Inr [1, 2, 3])
          (initial_state\<lparr>selectedImage := Some \<lparr>name = lit ''.bashrc'', type = lit ''image/png'', content = []\<rparr>,
                         address := lit ''Paris'', format := Png\<rparr>))
   = [ProcessImage \<lparr>req_file = \<lparr>name = lit ''.bashrc'', type = lit ''image/png'', content = []\<rparr>,
                    req_address = lit ''Paris'', req_format = Png\<rparr>,
      Download (lit ''_gps.png'') [1, 2, 3]] \<and>
   snd (handleProcess (\<lambda>form. Inr [4])
          (initial_state\<lparr>selectedImage := Some \<lparr>name = lit ''photo.final.jpg'', type = lit ''image/jpeg'', content = []\<rparr>,
                         address := lit ''Paris'', format := Webp\<rparr>))
   = [ProcessImage \<lparr>req_file = \<lparr>name = lit ''photo.final.jpg'', type = lit ''image/jpeg'', content = []\<rparr>,
                    req_address = lit ''Paris'', req_format = Webp\<rparr>,
      Download (lit ''photo_gps.webp'') [4]]"
  using download_name_first_dot [of
      "initial_state\<lparr>selectedImage := Some \<lparr>name = lit ''.bashrc'', type = lit ''image/png'', content = []\<rparr>,
                         address := lit ''Paris'', format := Png\<rparr>"
      "\<lparr>name = lit ''.bashrc'', type = lit ''image/png'', content = []\<rparr>"
      "\<lambda>form. Inr [1, 2, 3]" "[1, 2, 3]"]
    download_name_first_dot [of
      "initial_state\<lparr>selectedImage := Some \<lparr>name = lit ''photo.final.jpg'', type = lit ''image/jpeg'', content = []\<rparr>,
                         address := lit ''Paris'', format := Webp\<rparr>"
      "\<lparr>name = lit ''photo.final.jpg'', type = lit ''image/jpeg'', content = []\<rparr>"
      "\<lambda>form. Inr [4]" "[4]"]
  by (simp add: initial_state_def truthy_def trim_def isWhiteSpace_def lit_def processImage_def)

section \<open>The other paths of handleProcess\<close>

text \<open>
  \<open>handleProcess\<close> sends nothing exactly in the states its guard names. In every
  other state it sends one request, first of all its effects, carrying the selected
  file, the address as typed (not trimmed) and the chosen format.
\<close>

theorem handleProcess_request_iff:
  "(snd (handleProcess post s) = [] \<longleftrightarrow>
      selectedImage s = None \<or> (\<forall>c\<in>set (address s). isWhiteSpace c)) \<and>
   (selectedImage s = Some img \<and> \<not> (\<forall>c\<in>set (address s). isWhiteSpace c) \<longrightarrow>
      hd (snd (handleProcess post s)) =
        ProcessImage \<lparr>req_file = img, req_address = address s, req_format = format s\<rparr> \<and>
      length (filter (\<lambda>e. case e of ProcessImage r \<Rightarrow> True | Download n b \<Rightarrow> False)
                (snd (handleProcess post s))) = 1)"
  by (auto simp: handleProcess_def truthy_def trim_empty_iff Let_def
           split: option.splits sum.splits)

theorem handleProcess_request_iff_witness:
  "hd (snd (handleProcess (\<lambda>form. Inl (ApiError None))
          (initial_state\<lparr>selectedImage := Some \<lparr>name = lit ''a.png'', type = lit ''image/png'', content = []\<rparr>,
                         address := lit '' Paris ''\<rparr>)))
   = ProcessImage \<lparr>req_file = \<lparr>name = lit ''a.png'', type = lit ''image/png'', content = []\<rparr>,
                   req_address = lit '' Paris '', req_format = Jpeg\<rparr>"
  using handleProcess_request_iff [of "\<lambda>form. Inl (ApiError None)"
      "initial_state\<lparr>selectedImage := Some \<lparr>name = lit ''a.png'', type = lit ''image/png'', content = []\<rparr>,
                         address := lit '' Paris ''\<rparr>"
      "\<lparr>name = lit ''a.png'', type = lit ''image/png'', content = []\<rparr>"]
  by (simp add: initial_state_def isWhiteSpace_def lit_def)

text \<open>
  When the request is rejected, \<open>handleProcess\<close> starts no download and ends with
  the flags cleared, no blob, and as the error the server's detail if it is a non-empty
  string, the fixed message "Failed to process image. Please try again." otherwise.
\<close>

theorem handleProcess_failure:
  assumes "selectedImage s = Some img"
    and "truthy (trim (address s))"
    and "processImage post \<lparr>req_file = img, req_address = address s, req_format = format s\<rparr>
           = Inl (ApiError detail)"
  shows "handleProcess post s =
           (s\<lparr>isProcessing := False, success := False, processedBlob := None,
              error := Some (case detail of
                               None \<Rightarrow> lit ''Failed to process image. Please try again.''
                             | Some d \<Rightarrow> if d = [] then lit ''Failed to process image. Please try again.''
                                         else d)\<rparr>,
            [ProcessImage \<lparr>req_file = img, req_address = address s, req_format = format s\<rparr>])"
  using assms
  by (simp add: handleProcess_def error_message_def truthy_def split: option.splits)

theorem handleProcess_failure_witness:
  "handleProcess (\<lambda>form. Inl (ApiError (Some [])))
     (initial_state\<lparr>selectedImage := Some \<lparr>name = lit ''a.png'', type = lit ''image/png'', content = []\<rparr>,
                    address := lit ''Paris'', success := True, processedBlob := Some [7]\<rparr>)
   = (initial_state\<lparr>selectedImage := Some \<lparr>name = lit ''a.png'', type = lit ''image/png'', content = []\<rparr>,
                    address := lit ''Paris'',
                    error := Some (lit ''Failed to process image. Please try again.'')\<rparr>,
      [ProcessImage \<lparr>req_file = \<lparr>name = lit ''a.png'', type = lit ''image/png'', content = []\<rparr>,
                      req_address = lit ''Paris'', req_format = Jpeg\<rparr>])"
  using handleProcess_failure [of
      "initial_state\<lparr>selectedImage := Some \<lparr>name = lit ''a.png'', type = lit ''image/png'', content = []\<rparr>,
                    address := lit ''Paris'', success := True, processedBlob := Some [7]\<rparr>"
      "\<lparr>name = lit ''a.png'', type = lit ''image/png'', content = []\<rparr>"
      "\<lambda>form. Inl (ApiError (Some []))" "Some []"]
  by (simp add: initial_state_def truthy_def trim_def isWhiteSpace_def lit_def processImage_def)

text \<open>
  When the request succeeds, \<open>handleProcess\<close> ends with the blob stored, the success
  flag set, no error and the processing flag cleared; nothing else of the state changes.
\<close>

theorem handleProcess_success:
  assumes "selectedImage s = Some img"
    and "truthy (trim (address s))"
    and "processImage post \<lparr>req_file = img, req_address = address s, req_format = format s\<rparr>
           = Inr b"
  shows "fst (handleProcess post s) =
           s\<lparr>isProcessing := False, success := True, processedBlob := Some b, error := None\<rparr>"
  using assms
  by (simp add: handleProcess_def)

theorem handleProcess_success_witness:
  "fst (handleProcess (\<lambda>form. Inr [1, 2, 3])
          (initial_state\<lparr>selectedImage := Some \<lparr>name = lit ''a.png'', type = lit ''image/png'', content = []\<rparr>,
                         address := lit ''Paris'', error := Some (lit ''old'')\<rparr>))
   = initial_state\<lparr>selectedImage := Some \<lparr>name = lit ''a.png'', type = lit ''image/png'', content = []\<rparr>,
                    address := lit ''Paris'', success := True, processedBlob := Some [1, 2, 3]\<rparr>"
  using handleProcess_success [of
      "initial_state\<lparr>selectedImage := Some \<lparr>name = lit ''a.png'', type = lit ''image/png'', content = []\<rparr>,
                         address := lit ''Paris'', error := Some (lit ''old'')\<rparr>"
      "\<lparr>name = lit ''a.png'', type = lit ''image/png'', content = []\<rparr>"
      "\<lambda>form. Inr [1, 2, 3]" "[1, 2, 3]"]
  by (simp add: initial_state_def truthy_def trim_def isWhiteSpace_def lit_def processImage_def)

section \<open>Dropping files on the uploader\<close>

text \<open>
  Claim C10. On a drop, \<open>handleDrop\<close> clears the dragging flag and, if the file at
  position \<open>i\<close> is the first whose type starts with \<open>image/\<close>, calls
  \<open>onImageSelected\<close> once, with that file, so that it becomes the page's selection.
  If no dropped file has such a type, \<open>onImageSelected\<close> is not called and the page's
  state, its selection included, stays as it was.
\<close>

theorem handleDrop_first_image:
  "(i < length files \<and> startsWith (type (files ! i)) (lit ''image/'') \<and>
      (\<forall>j<i. \<not> startsWith (type (files ! j)) (lit ''image/''))
    \<longrightarrow> handleDrop files u = (u\<lparr>isDragging := False\<rparr>, [files ! i]) \<and>
        drop_on_page files (u, s) =
          (u\<lparr>isDragging := False\<rparr>, s\<lparr>selectedImage := Some (files ! i)\<rparr>)) \<and>
   ((\<forall>f\<in>set files. \<not> startsWith (type f) (lit ''image/''))
    \<longrightarrow> handleDrop files u = (u\<lparr>isDragging := False\<rparr>, []) \<and>
        drop_on_page files (u, s) = (u\<lparr>isDragging := False\<rparr>, s))"
proof (intro conjI impI)
  assume "\<forall>f\<in>set files. \<not> startsWith (type f) (lit ''image/'')"
  then have none: "find (\<lambda>f. startsWith (type f) (lit ''image/'')) files = None"
    by (simp add: find_None_iff)
  show "handleDrop files u = (u\<lparr>isDragging := False\<rparr>, [])"
    using none by (simp add: handleDrop_def)
  show "drop_on_page files (u, s) = (u\<lparr>isDragging := False\<rparr>, s)"
    using none by (simp add: handleDrop_def drop_on_page_def)
next
  assume "i < length files \<and> startsWith (type (files ! i)) (lit ''image/'') \<and>
      (\<forall>j<i. \<not> startsWith (type (files ! j)) (lit ''image/''))"
  then have some: "find (\<lambda>f. startsWith (type f) (lit ''image/'')) files = Some (files ! i)"
    unfolding find_Some_iff by blast
  show "handleDrop files u = (u\<lparr>isDragging := False\<rparr>, [files ! i])"
    using some by (simp add: handleDrop_def)
  show "drop_on_page files (u, s) =
          (u\<lparr>isDragging := False\<rparr>, s\<lparr>selectedImage := Some (files ! i)\<rparr>)"
    using some by (simp add: handleDrop_def drop_on_page_def setSelectedImage_def)
qed

theorem handleDrop_first_image_witness:
  "handleDrop
     [\<lparr>name = lit ''notes.pdf'', type = lit ''application/pdf'', content = []\<rparr>,
      \<lparr>name = lit ''a.png'', type = lit ''image/png'', content = [1]\<rparr>,
      \<lparr>name = lit ''b.jpg'', type = lit ''image/jpeg'', content = [2]\<rparr>]
     \<lparr>isDragging = True\<rparr>
   = (\<lparr>isDragging = False\<rparr>, [\<lparr>name = lit ''a.png'', type = lit ''image/png'', content = [1]\<rparr>]) \<and>
   drop_on_page
     [\<lparr>name = lit ''notes.pdf'', type = lit ''application/pdf'', content = []\<rparr>]
     (\<lparr>isDragging = True\<rparr>, initial_state)
   = (\<lparr>isDragging = False\<rparr>, initial_state)"
  using handleDrop_first_image [of 1
      "[\<lparr>name = lit ''notes.pdf'', type = lit ''application/pdf'', content = []\<rparr>,
        \<lparr>name = lit ''a.png'', type = lit ''image/png'', content = [1]\<rparr>,
        \<lparr>name = lit ''b.jpg'', type = lit ''image/jpeg'', content = [2]\<rparr>]"
      "\<lparr>isDragging = True\<rparr>" initial_state]
    handleDrop_first_image [of 0
      "[\<lparr>name = lit ''notes.pdf'', type = lit ''application/pdf'', content = []\<rparr>]"
      "\<lparr>isDragging = True\<rparr>" initial_state]
  by (simp add: startsWith_def lit_def)

section \<open>Properties of the coordinate codec\<close>

lemma minutes_range:
  fixes m :: real
  shows "0 \<le> \<lfloor>frac m * 60\<rfloor> \<and> \<lfloor>frac m * 60\<rfloor> \<le> 59"
proof -
  have "0 \<le> frac m" "frac m < 1" by (simp_all add: frac_lt_1)
  then have "0 \<le> frac m * 60" "frac m * 60 < 60" by simp_all
  then have "0 \<le> \<lfloor>frac m * 60\<rfloor>" "\<lfloor>frac m * 60\<rfloor> < 60"
    by (simp_all add: floor_less_iff)
  then show ?thesis by simp
qed

lemma numerator_range:
  fixes y :: real
  shows "0 \<le> round (frac y * 60 * 1000000) \<and> round (frac y * 60 * 1000000) \<le> 60000000"
proof -
  have "0 \<le> frac y" "frac y < 1" by (simp_all add: frac_lt_1)
  then have a: "0 \<le> frac y * 60 * 1000000" and b: "frac y * 60 * 1000000 \<le> 60000000"
    by simp_all
  from a have "round (0::real) \<le> round (frac y * 60 * 1000000)" by (rule round_mono)
  moreover from b have "round (frac y * 60 * 1000000) \<le> round (60000000::real)" by (rule round_mono)
  ultimately show ?thesis by simp
qed

lemma toDMS_in_range:
  assumes "\<bar>x\<bar> \<le> bound ax"
  shows "toDMS (Finite x) ax =
           Inr (\<lparr>degrees = nat \<lfloor>\<bar>x\<bar>\<rfloor>,
                 minutes = nat \<lfloor>frac \<bar>x\<bar> * 60\<rfloor>,
                 seconds = (nat (round (frac (frac \<bar>x\<bar> * 60) * 60 * 1000000)), 1000000)\<rparr>,
                hemisphere ax x)"
  using assms by (simp add: toDMS_def Let_def frac_def denominator_def)

text \<open>
  Claim C3. For an input within range on its axis, \<open>toDMS\<close> succeeds; the degrees
  are the floor of the magnitude, the minutes the floor of the remainder times 60, the
  seconds the rational \<open>round(seconds_decimal * denominator) / denominator\<close> over the
  fixed denominator, and the reference is N (latitude) or E (longitude) for inputs at
  or above zero, S or W below. No component is cut short by its unsigned type, the
  minutes are at most 59 and the seconds at most 60.
\<close>

theorem toDMS_components:
  assumes "\<bar>x\<bar> \<le> bound ax"
  shows "\<exists>d. toDMS (Finite x) ax =
              Inr (d, case ax of Lat \<Rightarrow> if 0 \<le> x then N else S
                              | Lon \<Rightarrow> if 0 \<le> x then E else W) \<and>
             int (degrees d) = \<lfloor>\<bar>x\<bar>\<rfloor> \<and>
             int (minutes d) = \<lfloor>(\<bar>x\<bar> - of_int \<lfloor>\<bar>x\<bar>\<rfloor>) * 60\<rfloor> \<and>
             int (fst (seconds d)) =
               round (((\<bar>x\<bar> - of_int \<lfloor>\<bar>x\<bar>\<rfloor>) * 60
                        - of_int \<lfloor>(\<bar>x\<bar> - of_int \<lfloor>\<bar>x\<bar>\<rfloor>) * 60\<rfloor>) * 60 * of_nat denominator) \<and>
             snd (seconds d) = denominator \<and>
             minutes d \<le> 59 \<and> fst (seconds d) \<le> 60 * denominator"
proof -
  let ?d = "\<lparr>degrees = nat \<lfloor>\<bar>x\<bar>\<rfloor>,
             minutes = nat \<lfloor>frac \<bar>x\<bar> * 60\<rfloor>,
             seconds = (nat (round (frac (frac \<bar>x\<bar> * 60) * 60 * 1000000)), 1000000)\<rparr>"
  have m: "0 \<le> \<lfloor>frac \<bar>x\<bar> * 60\<rfloor>" "\<lfloor>frac \<bar>x\<bar> * 60\<rfloor> \<le> 59"
    using minutes_range [of "\<bar>x\<bar>"] by simp_all
  have n: "0 \<le> round (frac (frac \<bar>x\<bar> * 60) * 60 * 1000000)"
      "round (frac (frac \<bar>x\<bar> * 60) * 60 * 1000000) \<le> 60000000"
    using numerator_range [of "frac \<bar>x\<bar> * 60"] by simp_all
  have 1: "toDMS (Finite x) ax =
      Inr (?d, case ax of Lat \<Rightarrow> if 0 \<le> x then N else S | Lon \<Rightarrow> if 0 \<le> x then E else W)"
    using toDMS_in_range [OF assms] by (simp add: hemisphere_def)
  have 2: "int (degrees ?d) = \<lfloor>\<bar>x\<bar>\<rfloor>" by simp
  have 3: "int (minutes ?d) = \<lfloor>(\<bar>x\<bar> - of_int \<lfloor>\<bar>x\<bar>\<rfloor>) * 60\<rfloor>"
    using m by (simp add: frac_def)
  have 4: "int (fst (seconds ?d)) =
      round (((\<bar>x\<bar> - of_int \<lfloor>\<bar>x\<bar>\<rfloor>) * 60
               - of_int \<lfloor>(\<bar>x\<bar> - of_int \<lfloor>\<bar>x\<bar>\<rfloor>) * 60\<rfloor>) * 60 * of_nat denominator)"
    using n by (simp add: frac_def denominator_def)
  have 5: "snd (seconds ?d) = denominator" by (simp add: denominator_def)
  have "nat \<lfloor>frac \<bar>x\<bar> * 60\<rfloor> \<le> 59" using m(2) by linarith
  then have 6: "minutes ?d \<le> 59" by simp
  have "nat (round (frac (frac \<bar>x\<bar> * 60) * 60 * 1000000)) \<le> 60000000"
    using n(2) by linarith
  then have 7: "fst (seconds ?d) \<le> 60 * denominator" by (simp add: denominator_def)
  from 1 2 3 4 5 6 7 show ?thesis by blast
qed

theorem toDMS_components_witness:
  "(\<exists>d. toDMS (Finite (- 33.8568)) Lat = Inr (d, S) \<and>
        degrees d = 33 \<and> minutes d = 51 \<and> seconds d = (24480000, 1000000)) \<and>
   (\<exists>d. toDMS (Finite 0) Lon = Inr (d, E) \<and>
        degrees d = 0 \<and> minutes d = 0 \<and> seconds d = (0, 1000000))"
  using toDMS_components [of "- 33.8568" Lat] toDMS_components [of 0 Lon]
  by (simp add: bound_def denominator_def prod_eq_iff round_def) blast

lemma fromDMS_toDMS_magnitude:
  fixes m :: real
  assumes "0 \<le> m"
  shows "\<bar>(of_nat (nat \<lfloor>m\<rfloor>) + of_nat (nat \<lfloor>frac m * 60\<rfloor>) / 60
            + (of_nat (nat (round (frac (frac m * 60) * 60 * 1000000))) / 1000000) / 3600) - m\<bar>
         \<le> 1 / 2000000 / 3600"
proof -
  define d :: real where "d = of_int \<lfloor>m\<rfloor>"
  define f :: real where "f = frac m"
  define k :: real where "k = of_int \<lfloor>f * 60\<rfloor>"
  define g :: real where "g = frac (f * 60)"
  define n :: real where "n = of_int (round (g * 60 * 1000000))"
  have d0: "of_nat (nat \<lfloor>m\<rfloor>) = d"
    using assms by (simp add: d_def)
  have k0: "of_nat (nat \<lfloor>frac m * 60\<rfloor>) = k"
    using minutes_range [of m] by (simp add: k_def f_def)
  have n0: "of_nat (nat (round (frac (frac m * 60) * 60 * 1000000))) = n"
    using numerator_range [of "frac m * 60"] by (simp add: n_def g_def f_def)
  have 1: "m = d + f" by (simp add: d_def f_def frac_def)
  have 2: "f * 60 = k + g" by (simp add: k_def g_def frac_def)
  have "\<bar>n - g * 60 * 1000000\<bar> \<le> 1 / 2"
    unfolding n_def by (rule of_int_round_abs_le)
  with 1 2 have "\<bar>(d + k / 60 + (n / 1000000) / 3600) - m\<bar> \<le> 1 / 2000000 / 3600"
    by linarith
  then show ?thesis by (simp only: d0 k0 n0)
qed

lemma signed_error:
  fixes x M :: real
  shows "\<bar>(if 0 \<le> x then M else - M) - x\<bar> = \<bar>M - \<bar>x\<bar>\<bar>"
  by (cases "0 \<le> x") simp_all

lemma fromDMS_record:
  "fromDMS (\<lparr>degrees = a, minutes = b, seconds = (c, e)\<rparr>, hemisphere ax x) =
     (if 0 \<le> x then of_nat a + of_nat b / 60 + (of_nat c / of_nat e) / 3600
      else - (of_nat a + of_nat b / 60 + (of_nat c / of_nat e) / 3600))"
  by (cases ax) (simp_all add: fromDMS_def hemisphere_def Let_def)

lemma precision_value: "precision = 1 / 2000000 / 3600"
  by (simp add: precision_def denominator_def)

text \<open>
  Claim C5. For an input within range on its axis, \<open>toDMS\<close> succeeds and \<open>fromDMS\<close>
  of its result, sign restored from the hemisphere reference, differs from the input by
  at most the declared precision: half a unit of the seconds denominator, in degrees.
\<close>

theorem fromDMS_toDMS_roundtrip:
  assumes "\<bar>x\<bar> \<le> bound ax"
  shows "\<exists>r. toDMS (Finite x) ax = Inr r \<and> \<bar>fromDMS r - x\<bar> \<le> precision"
proof -
  have e: "\<bar>(of_nat (nat \<lfloor>\<bar>x\<bar>\<rfloor>) + of_nat (nat \<lfloor>frac \<bar>x\<bar> * 60\<rfloor>) / 60
            + (of_nat (nat (round (frac (frac \<bar>x\<bar> * 60) * 60 * 1000000))) / 1000000) / 3600)
           - \<bar>x\<bar>\<bar> \<le> precision"
    unfolding precision_value by (rule fromDMS_toDMS_magnitude) simp
  have "\<bar>fromDMS (\<lparr>degrees = nat \<lfloor>\<bar>x\<bar>\<rfloor>,
                 minutes = nat \<lfloor>frac \<bar>x\<bar> * 60\<rfloor>,
                 seconds = (nat (round (frac (frac \<bar>x\<bar> * 60) * 60 * 1000000)), 1000000)\<rparr>,
                hemisphere ax x) - x\<bar> \<le> precision"
    unfolding fromDMS_record signed_error using e by (simp only: of_nat_numeral)
  with toDMS_in_range [OF assms] show ?thesis by blast
qed

theorem fromDMS_toDMS_roundtrip_witness:
  "(\<exists>r. toDMS (Finite (- 33.8568)) Lat = Inr r \<and> \<bar>fromDMS r - (- 33.8568)\<bar> \<le> 1 / 7200000000) \<and>
   (\<exists>r. toDMS (Finite 2.2945) Lon = Inr r \<and> \<bar>fromDMS r - 2.2945\<bar> \<le> 1 / 7200000000)"
  using fromDMS_toDMS_roundtrip [of "- 33.8568" Lat] fromDMS_toDMS_roundtrip [of "2.2945" Lon]
  by (simp add: bound_def precision_def denominator_def)

lemma toDMS_out_of_range:
  assumes "bound ax < \<bar>x\<bar>"
  shows "toDMS (Finite x) ax = Inl InvalidCoordinate"
  using assms by (simp add: toDMS_def)

lemma toDMS_Inl_iff:
  "toDMS (Finite x) ax = Inl InvalidCoordinate \<longleftrightarrow> bound ax < \<bar>x\<bar>"
proof (cases "\<bar>x\<bar> \<le> bound ax")
  case True
  have "toDMS (Finite x) ax \<noteq> Inl InvalidCoordinate"
    unfolding toDMS_in_range [OF True] by simp
  with True show ?thesis by simp
next
  case False
  then have "bound ax < \<bar>x\<bar>" by simp
  with toDMS_out_of_range [OF this] show ?thesis by simp
qed

lemma toDMS_Inr_iff:
  "(\<exists>r. toDMS (Finite x) ax = Inr r) \<longleftrightarrow> \<bar>x\<bar> \<le> bound ax"
proof (cases "\<bar>x\<bar> \<le> bound ax")
  case True
  have "\<exists>r. toDMS (Finite x) ax = Inr r"
    unfolding toDMS_in_range [OF True] by simp
  with True show ?thesis by simp
next
  case False
  then have "bound ax < \<bar>x\<bar>" by simp
  from toDMS_out_of_range [OF this] have "\<not> (\<exists>r. toDMS (Finite x) ax = Inr r)"
    by simp
  with False show ?thesis by simp
qed

text \<open>
  Claim C4. \<open>toDMS\<close> answers \<open>InvalidCoordinate\<close> exactly for the latitudes outside
  [-90, 90] and the longitudes outside [-180, 180] (and for a non-finite input), and
  yields a result, never an error, for every finite input inside those ranges.
\<close>

theorem toDMS_range_check:
  "toDMS NonFinite ax = Inl InvalidCoordinate \<and>
   (toDMS (Finite x) Lat = Inl InvalidCoordinate \<longleftrightarrow> x < - 90 \<or> 90 < x) \<and>
   (toDMS (Finite x) Lon = Inl InvalidCoordinate \<longleftrightarrow> x < - 180 \<or> 180 < x) \<and>
   ((\<exists>r. toDMS (Finite x) Lat = Inr r) \<longleftrightarrow> - 90 \<le> x \<and> x \<le> 90) \<and>
   ((\<exists>r. toDMS (Finite x) Lon = Inr r) \<longleftrightarrow> - 180 \<le> x \<and> x \<le> 180)"
proof -
  have nf: "toDMS NonFinite ax = Inl InvalidCoordinate"
    by (simp add: toDMS_def)
  have a: "bound Lat < \<bar>x\<bar> \<longleftrightarrow> x < - 90 \<or> 90 < x"
    unfolding bound_def by (simp add: abs_if) linarith
  have b: "bound Lon < \<bar>x\<bar> \<longleftrightarrow> x < - 180 \<or> 180 < x"
    unfolding bound_def by (simp add: abs_if) linarith
  have c: "\<bar>x\<bar> \<le> bound Lat \<longleftrightarrow> - 90 \<le> x \<and> x \<le> 90"
    unfolding bound_def by (simp add: abs_le_iff) linarith
  have d: "\<bar>x\<bar> \<le> bound Lon \<longleftrightarrow> - 180 \<le> x \<and> x \<le> 180"
    unfolding bound_def by (simp add: abs_le_iff) linarith
  show ?thesis
    unfolding toDMS_Inl_iff toDMS_Inr_iff a b c d using nf by simp
qed

theorem toDMS_range_check_witness:
  "toDMS (Finite 90.5) Lat = Inl InvalidCoordinate \<and>
   toDMS (Finite (- 180.25)) Lon = Inl InvalidCoordinate \<and>
   (\<exists>r. toDMS (Finite 90) Lat = Inr r) \<and>
   (\<exists>r. toDMS (Finite (- 180)) Lon = Inr r) \<and>
   (\<exists>r. toDMS (Finite 151.2153) Lon = Inr r)"
  using toDMS_range_check [of Lat "90.5"] toDMS_range_check [of Lon "- 180.25"]
    toDMS_range_check [of Lat 90] toDMS_range_check [of Lon "- 180"]
    toDMS_range_check [of Lon "151.2153"]
  by simp

end
